theory Spec2Isabelle
  imports Complex_Main "HOL-Library.Sublist"
begin

section \<open>JavaScript strings\<close>

text \<open>
  A JavaScript string is a sequence of code units. It is modelled as a \<open>string\<close>, one
  \<open>char\<close> per code unit; the code units that fit are those below 256, so that the
  members of the regular expression class \<open>\s\<close> in that range are the characters
  9 to 13 (tab, line feed, vertical tab, form feed, carriage return), 32 (space) and
  160 (no-break space).
\<close>

definition is_space :: "char \<Rightarrow> bool" where
  "is_space c = (of_char c \<in> {9, 10, 11, 12, 13, 32, 160 :: nat})"

text \<open>
  \<^verbatim>\<open>this.trim = (message) => {
    return (message).replace(/^\s+/g, "").replace(/\s+$/g, "");
  };\<close>
  The first replacement deletes the longest run of white space at the start of the
  message, the second one the longest run at its end.
\<close>

definition trim :: "string \<Rightarrow> string" where
  "trim message = rev (dropWhile is_space (rev (dropWhile is_space message)))"

text \<open>
  \<^verbatim>\<open>this.untrim = (message) => {
    return (' '+this.trim(message)+' ');
  };\<close>
\<close>

definition untrim :: "string \<Rightarrow> string" where
  "untrim message = '' '' @ trim message @ '' ''"

text \<open>
  A message begins with exactly one space when its first character is a space and the
  next one, if there is one, is not; it ends with exactly one space when its reverse
  begins with exactly one.
\<close>

fun begins_with_one_space :: "string \<Rightarrow> bool" where
  "begins_with_one_space [] = False"
| "begins_with_one_space [c] = (c = CHR '' '')"
| "begins_with_one_space (c # d # cs) = (c = CHR '' '' \<and> d \<noteq> CHR '' '')"

definition ends_with_one_space :: "string \<Rightarrow> bool" where
  "ends_with_one_space s = begins_with_one_space (rev s)"

section \<open>JavaScript values\<close>

text \<open>
  The values the service's functions receive and return. \<open>JNum n\<close> is the number whose
  value is the integer \<open>n\<close> (the clock readings, row values, error numbers and process
  ids of this code are integers below \<open>2 ^ 53\<close>, which a double holds exactly).
  \<open>JStringObj\<close> is a \<open>String\<close> object, as \<open>new String(...)\<close> makes it. A plain object
  is the list of its own enumerable properties, in the order in which the runtime
  enumerates them, with no key twice. \<open>JError name message props\<close> is an instance of
  \<open>Error\<close>: \<open>name\<close> and \<open>message\<close> are what its properties of these names hold (neither is
  enumerable), \<open>props\<close> are the enumerable properties a library has added to it, such as
  \<open>code\<close> and \<open>errno\<close>.
\<close>

datatype js_value =
    JUndefined
  | JNull
  | JBool bool
  | JNum int
  | JStr string
  | JStringObj string
  | JArray "js_value list"
  | JObject "(string \<times> js_value) list"
  | JError string string "(string \<times> js_value) list"

abbreviation Error :: "string \<Rightarrow> js_value" where
  "Error message \<equiv> JError ''Error'' message []"

text \<open>A promise, once settled.\<close>

datatype outcome = Resolved js_value | Rejected js_value

subsection \<open>Conversion to a string\<close>

definition digit_char :: "nat \<Rightarrow> char" where
  "digit_char d = char_of (48 + d)"

fun digits :: "nat \<Rightarrow> string" where
  "digits n = (if n < 10 then [digit_char n] else digits (n div 10) @ [digit_char (n mod 10)])"

declare digits.simps [simp del]

definition number_to_string :: "int \<Rightarrow> string" where
  "number_to_string n = (if n < 0 then ''-'' @ digits (nat (- n)) else digits (nat n))"

text \<open>\<open>Array.prototype.join\<close>, on the elements already converted.\<close>

fun join :: "string \<Rightarrow> string list \<Rightarrow> string" where
  "join sep [] = []"
| "join sep [x] = x"
| "join sep (x # y # ys) = x @ sep @ join sep (y # ys)"

text \<open>
  The conversion that string concatenation, \<open>join\<close>, \<open>JSON.parse\<close> and \<open>new Error\<close> apply
  to an argument. An array is its elements joined by commas, with nothing for an element
  that is \<open>null\<close> or \<open>undefined\<close>; an error is its name and its message.
\<close>

fun to_string :: "js_value \<Rightarrow> string" where
  "to_string JUndefined = ''undefined''"
| "to_string JNull = ''null''"
| "to_string (JBool b) = (if b then ''true'' else ''false'')"
| "to_string (JNum n) = number_to_string n"
| "to_string (JStr s) = s"
| "to_string (JStringObj s) = s"
| "to_string (JArray xs) =
     join '','' (map (\<lambda>x. if x = JUndefined \<or> x = JNull then [] else to_string x) xs)"
| "to_string (JObject kvs) = ''[object Object]''"
| "to_string (JError name message props) =
     (if name = [] then message else if message = [] then name else name @ '': '' @ message)"


subsection \<open>\<open>JSON.stringify\<close>\<close>

definition hex_digit :: "nat \<Rightarrow> char" where
  "hex_digit d = (if d < 10 then char_of (48 + d) else char_of (87 + d))"

definition quote_char :: "char \<Rightarrow> string" where
  "quote_char c =
     (if c = CHR 0x22 then [CHR 0x5C, CHR 0x22]
      else if c = CHR 0x5C then [CHR 0x5C, CHR 0x5C]
      else if c = CHR 0x08 then [CHR 0x5C, CHR ''b'']
      else if c = CHR 0x09 then [CHR 0x5C, CHR ''t'']
      else if c = CHR 0x0A then [CHR 0x5C, CHR ''n'']
      else if c = CHR 0x0C then [CHR 0x5C, CHR ''f'']
      else if c = CHR 0x0D then [CHR 0x5C, CHR ''r'']
      else if (of_char c :: nat) < 32 then
        [CHR 0x5C, CHR ''u'', CHR ''0'', CHR ''0'',
         hex_digit (of_char c div 16), hex_digit (of_char c mod 16)]
      else [c])"

definition quote :: "string \<Rightarrow> string" where
  "quote s = [CHR 0x22] @ concat (map quote_char s) @ [CHR 0x22]"

text \<open>
  The result is \<open>None\<close> where \<open>JSON.stringify\<close> returns \<open>undefined\<close>. A property whose
  value has no serialisation is left out of an object and is \<open>null\<close> in an array. Of an
  error only the enumerable properties are written: its message is not one of them.
\<close>

fun stringify :: "js_value \<Rightarrow> string option" where
  "stringify JUndefined = None"
| "stringify JNull = Some ''null''"
| "stringify (JBool b) = Some (if b then ''true'' else ''false'')"
| "stringify (JNum n) = Some (number_to_string n)"
| "stringify (JStr s) = Some (quote s)"
| "stringify (JStringObj s) = Some (quote s)"
| "stringify (JArray xs) =
     Some (''['' @ join '','' (map (\<lambda>x. case stringify x of None \<Rightarrow> ''null'' | Some t \<Rightarrow> t) xs)
       @ '']'')"
| "stringify (JObject kvs) =
     Some (''{'' @ join '','' (concat (map (\<lambda>(k, v).
         case stringify v of None \<Rightarrow> [] | Some t \<Rightarrow> [quote k @ '':'' @ t]) kvs)) @ ''}'')"
| "stringify (JError name message props) =
     Some (''{'' @ join '','' (concat (map (\<lambda>(k, v).
         case stringify v of None \<Rightarrow> [] | Some t \<Rightarrow> [quote k @ '':'' @ t]) props)) @ ''}'')"

text \<open>\<open>"..." + JSON.stringify(v)\<close>: the concatenation converts the result to a string.\<close>

definition stringify_text :: "js_value \<Rightarrow> string" where
  "stringify_text v = (case stringify v of None \<Rightarrow> ''undefined'' | Some t \<Rightarrow> t)"

subsection \<open>\<open>JSON.parse\<close>\<close>

text \<open>
  Whether \<open>JSON.parse\<close> accepts a text, by the grammar of JSON: a value between optional
  white space, where a value is an object, an array, a string, a number or one of the
  words \<open>true\<close>, \<open>false\<close> and \<open>null\<close>. Each function takes the text that is left and
  returns what is left after the part it reads, or \<open>None\<close> when the text is not of that
  form.
\<close>

definition json_ws :: "char \<Rightarrow> bool" where
  "json_ws c = (c = CHR 0x09 \<or> c = CHR 0x0A \<or> c = CHR 0x0D \<or> c = CHR '' '')"

definition is_digit :: "char \<Rightarrow> bool" where
  "is_digit c = (48 \<le> (of_char c :: nat) \<and> (of_char c :: nat) \<le> 57)"

definition is_hex :: "char \<Rightarrow> bool" where
  "is_hex c = (is_digit c \<or> c \<in> set ''abcdefABCDEF'')"

definition skip_ws :: "string \<Rightarrow> string" where
  "skip_ws cs = dropWhile json_ws cs"

text \<open>The characters of a string after its opening quote, up to the closing one.\<close>

fun json_chars :: "string \<Rightarrow> string option" where
  "json_chars [] = None"
| "json_chars (c # cs) =
     (if c = CHR 0x22 then Some cs
      else if c = CHR 0x5C then
        (case cs of
           [] \<Rightarrow> None
         | e # r \<Rightarrow>
             if e \<in> set [CHR 0x22, CHR 0x5C, CHR ''/'', CHR ''b'', CHR ''f'', CHR ''n'',
                 CHR ''r'', CHR ''t'']
               then json_chars r
             else if e = CHR ''u'' then
               (case r of
                  h1 # h2 # h3 # h4 # r' \<Rightarrow>
                    if is_hex h1 \<and> is_hex h2 \<and> is_hex h3 \<and> is_hex h4 then json_chars r'
                    else None
                | _ \<Rightarrow> None)
             else None)
      else if (of_char c :: nat) < 32 then None
      else json_chars cs)"

definition json_digits :: "string \<Rightarrow> string option" where
  "json_digits cs = (if takeWhile is_digit cs = [] then None else Some (dropWhile is_digit cs))"

definition json_int :: "string \<Rightarrow> string option" where
  "json_int cs =
     (case cs of
        [] \<Rightarrow> None
      | c # r \<Rightarrow>
          if c = CHR ''0'' then Some r
          else if is_digit c then Some (dropWhile is_digit r)
          else None)"

definition json_frac :: "string \<Rightarrow> string option" where
  "json_frac cs =
     (case cs of
        [] \<Rightarrow> Some cs
      | c # r \<Rightarrow> if c = CHR ''.'' then json_digits r else Some cs)"

definition json_exp :: "string \<Rightarrow> string option" where
  "json_exp cs =
     (case cs of
        [] \<Rightarrow> Some cs
      | c # r \<Rightarrow>
          if c = CHR ''e'' \<or> c = CHR ''E'' then
            (case r of
               [] \<Rightarrow> None
             | s # r' \<Rightarrow> if s = CHR ''+'' \<or> s = CHR ''-'' then json_digits r' else json_digits r)
          else Some cs)"

definition json_number :: "string \<Rightarrow> string option" where
  "json_number cs =
     Option.bind (json_int (case cs of [] \<Rightarrow> cs | c # r \<Rightarrow> if c = CHR ''-'' then r else cs))
       (\<lambda>r. Option.bind (json_frac r) json_exp)"

definition json_literal :: "string \<Rightarrow> string \<Rightarrow> string option" where
  "json_literal word cs = (if prefix word cs then Some (drop (length word) cs) else None)"

text \<open>
  Values nest, so the three functions call each other on what is left of the text. The
  first argument bounds the number of these calls; \<open>json_text\<close> starts with more than
  the text can use, since every object and array takes a bracket and every further
  member or element takes a comma.
\<close>

fun json_value :: "nat \<Rightarrow> string \<Rightarrow> string option"
  and json_elements :: "nat \<Rightarrow> string \<Rightarrow> string option"
  and json_members :: "nat \<Rightarrow> string \<Rightarrow> string option"
where
  "json_value 0 cs = None"
| "json_value (Suc fuel) cs =
     (case cs of
        [] \<Rightarrow> None
      | c # r \<Rightarrow>
          if c = CHR ''{'' then
            (case skip_ws r of
               [] \<Rightarrow> None
             | d # r' \<Rightarrow> if d = CHR ''}'' then Some r' else json_members fuel (d # r'))
          else if c = CHR ''['' then
            (case skip_ws r of
               [] \<Rightarrow> None
             | d # r' \<Rightarrow> if d = CHR '']'' then Some r' else json_elements fuel (d # r'))
          else if c = CHR 0x22 then json_chars r
          else if c = CHR ''-'' \<or> is_digit c then json_number cs
          else if c = CHR ''t'' then json_literal ''true'' cs
          else if c = CHR ''f'' then json_literal ''false'' cs
          else if c = CHR ''n'' then json_literal ''null'' cs
          else None)"
| "json_elements 0 cs = None"
| "json_elements (Suc fuel) cs =
     (case json_value fuel cs of
        None \<Rightarrow> None
      | Some r \<Rightarrow>
          (case skip_ws r of
             [] \<Rightarrow> None
           | d # r' \<Rightarrow>
               if d = CHR '','' then json_elements fuel (skip_ws r')
               else if d = CHR '']'' then Some r'
               else None))"
| "json_members 0 cs = None"
| "json_members (Suc fuel) cs =
     (case cs of
        [] \<Rightarrow> None
      | q # r \<Rightarrow>
          if q \<noteq> CHR 0x22 then None
          else
            (case json_chars r of
               None \<Rightarrow> None
             | Some r1 \<Rightarrow>
                 (case skip_ws r1 of
                    [] \<Rightarrow> None
                  | colon # r2 \<Rightarrow>
                      if colon \<noteq> CHR '':'' then None
                      else
                        (case json_value fuel (skip_ws r2) of
                           None \<Rightarrow> None
                         | Some r3 \<Rightarrow>
                             (case skip_ws r3 of
                                [] \<Rightarrow> None
                              | d # r4 \<Rightarrow>
                                  if d = CHR '','' then json_members fuel (skip_ws r4)
                                  else if d = CHR ''}'' then Some r4
                                  else None)))))"

definition json_text :: "string \<Rightarrow> bool" where
  "json_text s =
     (case json_value (2 * length s + 2) (skip_ws s) of
        None \<Rightarrow> False
      | Some r \<Rightarrow> skip_ws r = [])"

section \<open>The service\<close>

subsection \<open>The type tests\<close>

text \<open>
  \<^verbatim>\<open>string: (value) => { return typeof value === 'string' || value instanceof String; },
  array: (value) => { return Array.isArray(value); },
  object: (value) => {
    return value && typeof value === 'object' && value.constructor === Object; },
  error: (value) => {
    return value instanceof Error && typeof value.message !== 'undefined'; },
  json: (value) => { try { JSON.parse(value); } catch (error) { return false; }; return true; }\<close>
  The message of an error is a string here, so it is never \<open>undefined\<close>.
  \<open>JSON.parse\<close> converts its argument to a string before it reads it.
  The \<open>constructor\<close> of a plain object is \<open>Object\<close>, inherited, unless the object has
  a property of that name of its own; no value of \<open>js_value\<close> is the function \<open>Object\<close>,
  so an object with its own \<open>constructor\<close> fails the test.
\<close>

definition is_null :: "js_value \<Rightarrow> bool" where
  "is_null v = (v = JNull)"

definition is_undefined :: "js_value \<Rightarrow> bool" where
  "is_undefined v = (v = JUndefined)"

fun is_string :: "js_value \<Rightarrow> bool" where
  "is_string (JStr s) = True"
| "is_string (JStringObj s) = True"
| "is_string v = False"



fun is_boolean :: "js_value \<Rightarrow> bool" where
  "is_boolean (JBool b) = True"
| "is_boolean v = False"


definition is_json :: "js_value \<Rightarrow> bool" where
  "is_json v = json_text (to_string v)"

subsection \<open>Timers, console and process\<close>

text \<open>
  What the service and the runtime hold. \<open>timers\<close> is the array \<open>this.timers\<close> of the
  handles that \<open>setTimeout\<close> returned, \<open>config_timeout\<close> is \<open>this.config.timeout\<close>.
  The runtime's table of timeouts gives each handle its state: a handle is the position
  of its timeout in the table. \<open>requests\<close> are the calls made to the transport,
  \<open>console\<close> the calls to the console, \<open>exit_code\<close> the argument of \<open>process.exit\<close> once
  the process has ended.
\<close>

datatype timer_status = Armed | Fired | Cleared

datatype console_method = console_error | console_debug | console_log

record world =
  config_timeout :: nat
  timers :: "nat list"
  timeouts :: "timer_status list"
  requests :: "(js_value \<times> js_value \<times> js_value) list"
  console :: "(console_method \<times> js_value list) list"
  exit_code :: "nat option"

text \<open>
  \<^verbatim>\<open>this.config = { "timeout": 30000 };
  Object.assign(this.config, config);
  this.timers = [];\<close>
\<close>

definition service :: "nat option \<Rightarrow> world \<Rightarrow> world" where
  "service config w =
     w\<lparr>config_timeout := (case config of None \<Rightarrow> 30000 | Some t \<Rightarrow> t), timers := []\<rparr>"

definition setTimeout :: "world \<Rightarrow> nat \<times> world" where
  "setTimeout w = (length (timeouts w), w\<lparr>timeouts := timeouts w @ [Armed]\<rparr>)"

text \<open>Clearing a timeout that has fired or has been cleared does nothing.\<close>

definition clearTimeout :: "nat \<Rightarrow> world \<Rightarrow> world" where
  "clearTimeout h w =
     (if h < length (timeouts w) \<and> timeouts w ! h = Armed
      then w\<lparr>timeouts := (timeouts w)[h := Cleared]\<rparr> else w)"

text \<open>The runtime runs the callback of a timeout that is still armed when its delay is over.\<close>

definition expire :: "nat \<Rightarrow> world \<Rightarrow> world" where
  "expire h w =
     (if h < length (timeouts w) \<and> timeouts w ! h = Armed
      then w\<lparr>timeouts := (timeouts w)[h := Fired]\<rparr> else w)"

definition armed :: "world \<Rightarrow> nat \<Rightarrow> bool" where
  "armed w h = (h < length (timeouts w) \<and> timeouts w ! h = Armed)"

subsection \<open>The call with a timeout\<close>

text \<open>
  The transport is the function \<open>fetch\<close> of the HTTP client. For a request it either
  answers, after a number of milliseconds, with a response, or fails after a number of
  milliseconds with an error. A response is what its method \<open>json()\<close> settles with: the
  parsed data, or the error of the parser. When the signal it was given is aborted
  before it has settled, the client rejects with its abort error, whose constructor
  assigns the properties \<open>type\<close> and \<open>message\<close>.
\<close>

datatype response = Response "js_value + js_value"

datatype transport = Responds nat response | Fails nat js_value

type_synonym network = "js_value \<Rightarrow> js_value \<Rightarrow> js_value \<Rightarrow> transport"

definition AbortError :: js_value where
  "AbortError = JError ''AbortError'' ''The user aborted a request.''
     [(''type'', JStr ''aborted''), (''message'', JStr ''The user aborted a request.'')]"

datatype settled = Fulfilled response | Failed js_value | Aborted

text \<open>
  The request runs against the timeout: the transport settles first when it takes less
  than the delay of the timeout, otherwise the timeout fires and its callback aborts the
  request.
\<close>

fun await_fetch :: "nat \<Rightarrow> transport \<Rightarrow> settled" where
  "await_fetch delay (Responds d r) = (if d < delay then Fulfilled r else Aborted)"
| "await_fetch delay (Fails d e) = (if d < delay then Failed e else Aborted)"

fun response_json :: "response \<Rightarrow> js_value + js_value" where
  "response_json (Response r) = r"

text \<open>
  \<^verbatim>\<open>this.fetch = async (address, method, body) => {
    if (!this.is.string(method)) { throw new Error("Invalid parameter: expected string"); };
    if (!this.is.json(body)) { throw new Error("Invalid parameter: expected object"); };
    try {
      let controller = new abort.AbortController;
      let timeout = (this.timers.push(setTimeout (() => { controller.abort(); },
        this.config.timeout))-1);
      let response = await fetch(address, { signal: controller.signal, method: method,
        body: body, headers: { 'Content-Type': 'application/json' } });
      clearTimeout(this.timers[timeout]);
      let data = await response.json();
      return data;
    } catch (error) {
      throw error;
    };
  };\<close>
  The result is the settled promise and the world at the moment it settles.
\<close>

definition fetch :: "network \<Rightarrow> js_value \<Rightarrow> js_value \<Rightarrow> js_value \<Rightarrow> world \<Rightarrow> outcome \<times> world" where
  "fetch net address method body w =
     (if \<not> is_string method then (Rejected (Error ''Invalid parameter: expected string''), w)
      else if \<not> is_json body then (Rejected (Error ''Invalid parameter: expected object''), w)
      else
        let (handle, w1) = setTimeout w;
            w2 = w1\<lparr>timers := timers w1 @ [handle]\<rparr>;
            timeout = length (timers w2) - 1;
            w3 = w2\<lparr>requests := requests w2 @ [(address, method, body)]\<rparr>
        in case await_fetch (config_timeout w3) (net address method body) of
             Aborted \<Rightarrow> (Rejected AbortError, expire handle w3)
           | Failed error \<Rightarrow> (Rejected error, w3)
           | Fulfilled response \<Rightarrow>
               let w4 = clearTimeout (timers w3 ! timeout) w3
               in (case response_json response of
                     Inl error \<Rightarrow> (Rejected error, w4)
                   | Inr data \<Rightarrow> (Resolved data, w4)))"

subsection \<open>The stopwatch\<close>

text \<open>
  A reading of \<open>process.hrtime()\<close> is a pair of seconds and nanoseconds. With an
  argument, \<open>process.hrtime(time)\<close> is the difference between the reading and the
  argument, the nanoseconds borrowed from the seconds when they are negative.
\<close>

type_synonym hrtime = "int \<times> int"








subsection \<open>The identifier\<close>

text \<open>
  \<^verbatim>\<open>this.UUID = () => {
    try {
      let namespace = uuid('nl.mediaserve.common', uuid.DNS);
      return uuid(JSON.stringify(process.hrtime()), namespace);
    } catch (error) {
      return false;
    };
  };\<close>
  \<open>uuid\<close> is the function of the package \<open>uuid/v5\<close>, a parameter here: it returns the
  identifier of a name in a namespace, or \<open>None\<close> when it throws.
\<close>

definition uuid_DNS :: string where
  "uuid_DNS = ''6ba7b810-9dad-11d1-80b4-00c04fd430c8''"

definition hrtime_value :: "hrtime \<Rightarrow> js_value" where
  "hrtime_value t = JArray [JNum (fst t), JNum (snd t)]"

definition UUID :: "(string \<Rightarrow> string \<Rightarrow> string option) \<Rightarrow> hrtime \<Rightarrow> js_value" where
  "UUID uuid now =
     (case uuid ''nl.mediaserve.common'' uuid_DNS of
        None \<Rightarrow> JBool False
      | Some namespace \<Rightarrow>
          (case uuid (stringify_text (hrtime_value now)) namespace of
             None \<Rightarrow> JBool False
           | Some ident \<Rightarrow> JStr ident))"

subsection \<open>The log\<close>











subsection \<open>The exit\<close>



section \<open>The database\<close>

text \<open>
  A connection answers a query, given as the statement and the timeout, with a result
  (\<open>Inr\<close>) or with an error (\<open>Inl\<close>). \<open>for (let index in results)\<close> runs through the
  enumerable properties of the result: the positions of an array or of a string in
  ascending order, the properties of an object in their order, nothing for the other
  values.
\<close>

type_synonym connection = "js_value \<Rightarrow> nat \<Rightarrow> js_value + js_value"

fun for_in_values :: "js_value \<Rightarrow> js_value list" where
  "for_in_values (JArray xs) = xs"
| "for_in_values (JObject kvs) = map snd kvs"
| "for_in_values (JError name message props) = map snd props"
| "for_in_values (JStr s) = map (\<lambda>c. JStr [c]) s"
| "for_in_values (JStringObj s) = map (\<lambda>c. JStr [c]) s"
| "for_in_values v = []"

text \<open>
  \<^verbatim>\<open>this.execute = async (connection, query) => {
    try {
      let array = [], results = await connection.query(
        { "sql": query, "timeout": this.config.timeout });
      for (let index in results) { array.push(results[index]); };
      return array;
    } catch (error) {
      throw new Error("Unable to execute database query: "
        + JSON.stringify({ "sql": query, "error": error }));
    };
  };\<close>
  The first argument is \<open>this.config.timeout\<close> of the database, 120000 unless configured.
\<close>

definition execute :: "nat \<Rightarrow> connection \<Rightarrow> js_value \<Rightarrow> outcome" where
  "execute timeout connection query =
     (case connection query timeout of
        Inr results \<Rightarrow> Resolved (JArray (for_in_values results))
      | Inl error \<Rightarrow>
          Rejected (Error (''Unable to execute database query: ''
            @ stringify_text (JObject [(''sql'', query), (''error'', error)]))))"

text \<open>\<open>haystack.includes(needle)\<close>\<close>

fun string_includes :: "string \<Rightarrow> string \<Rightarrow> bool" where
  "string_includes [] needle = (needle = [])"
| "string_includes (c # cs) needle = (prefix needle (c # cs) \<or> string_includes cs needle)"

section \<open>Measures and examples\<close>

text \<open>The time a transport takes to settle, and a clock reading in seconds.\<close>

fun transport_time :: "transport \<Rightarrow> nat" where
  "transport_time (Responds d r) = d"
| "transport_time (Fails d e) = d"


text \<open>The message of the error a promise was rejected with.\<close>

fun rejection_message :: "outcome \<Rightarrow> string" where
  "rejection_message (Rejected (JError name message props)) = message"
| "rejection_message r = []"

text \<open>The number a string of decimal digits stands for.\<close>

definition digits_value :: "string \<Rightarrow> nat" where
  "digits_value cs = foldl (\<lambda>a c. 10 * a + (of_char c - 48)) 0 cs"

text \<open>
  A service with the default timeout and no timer yet, and transports that answer in
  time, answer too late, answer with a body that is no JSON, and fail to connect.
\<close>

definition new_world :: world where
  "new_world = service None \<lparr>config_timeout = 0, timers = [], timeouts = [], requests = [],
     console = [], exit_code = None\<rparr>"

definition quick_network :: network where
  "quick_network address method body = Responds 120 (Response (Inr (JObject [(''ok'', JBool True)])))"

definition slow_network :: network where
  "slow_network address method body = Responds 45000 (Response (Inr (JObject [(''ok'', JBool True)])))"

definition garbled_network :: network where
  "garbled_network address method body =
     Responds 120 (Response (Inl (JError ''FetchError'' ''invalid json response body''
       [(''type'', JStr ''invalid-json'')])))"

definition dead_network :: network where
  "dead_network address method body =
     Fails 3 (JError ''FetchError'' ''connect ECONNREFUSED''
       [(''type'', JStr ''system''), (''code'', JStr ''ECONNREFUSED'')])"

text \<open>
  Connections: one that rejects every query with the error \<open>table not found\<close>, one that
  answers with the single row \<open>{1: 1}\<close>.
\<close>

definition missing_table :: connection where
  "missing_table query timeout = Inl (Error ''table not found'')"

definition one_row :: connection where
  "one_row query timeout = Inr (JArray [JObject [(''1'', JNum 1)]])"


section \<open>Trimming\<close>

lemma is_space_blank: "is_space CHR '' ''"
  by (simp add: is_space_def)

lemma rev_dropWhile_rev_prefix:
  "t = rev (dropWhile P (rev t)) @ rev (takeWhile P (rev t))"
proof -
  have "rev (takeWhile P (rev t) @ dropWhile P (rev t)) = rev (rev t)"
    by (simp only: takeWhile_dropWhile_id)
  then show ?thesis
    by (simp only: rev_append rev_rev_ident)
qed

lemma trim_no_leading_space:
  assumes a: "trim s = c # cs"
  shows "\<not> is_space c"
proof -
  have "dropWhile is_space s
      = trim s @ rev (takeWhile is_space (rev (dropWhile is_space s)))"
    unfolding trim_def by (rule rev_dropWhile_rev_prefix)
  then have "dropWhile is_space s
      = c # (cs @ rev (takeWhile is_space (rev (dropWhile is_space s))))"
    by (simp only: a append_Cons)
  then show ?thesis
    by (simp add: dropWhile_eq_Cons_conv)
qed

lemma trim_no_trailing_space:
  assumes a: "rev (trim s) = c # cs"
  shows "\<not> is_space c"
proof -
  from a have "dropWhile is_space (rev (dropWhile is_space s)) = c # cs"
    by (simp only: trim_def rev_rev_ident)
  then show ?thesis
    by (simp add: dropWhile_eq_Cons_conv)
qed

lemma trim_blanks: "trim ''  '' = []"
  by (simp add: trim_def is_space_blank)

lemma trim_pad: "trim ('' '' @ trim s @ '' '') = trim s"
proof (cases "trim s")
  case Nil
  then show ?thesis
    by (simp add: trim_blanks)
next
  case (Cons c cs)
  let ?t = "trim s"
  have 1: "dropWhile is_space ('' '' @ ?t @ '' '') = dropWhile is_space (?t @ '' '')"
    by (simp add: is_space_blank)
  from Cons have c: "\<not> is_space c"
    by (rule trim_no_leading_space)
  have 2: "dropWhile is_space (?t @ '' '') = ?t @ '' ''"
    unfolding Cons using c by simp
  have "rev ?t \<noteq> []"
    using Cons by simp
  then obtain d ds where d: "rev ?t = d # ds"
    by (cases "rev ?t") auto
  then have nd: "\<not> is_space d"
    by (rule trim_no_trailing_space)
  have "dropWhile is_space (rev (?t @ '' '')) = dropWhile is_space (rev ?t)"
    by (simp add: is_space_blank)
  also have "\<dots> = rev ?t"
    unfolding d using nd by simp
  finally have 3: "dropWhile is_space (rev (?t @ '' '')) = rev ?t" .
  have "trim ('' '' @ ?t @ '' '') = rev (dropWhile is_space (rev (?t @ '' '')))"
    unfolding trim_def [of "'' '' @ ?t @ '' ''"] 1 2 ..
  then show ?thesis
    by (simp only: 3 rev_rev_ident)
qed

lemma untrim_one_space:
  assumes ne: "trim s \<noteq> []"
  shows "begins_with_one_space (untrim s) \<and> ends_with_one_space (untrim s)"
proof -
  from ne obtain c cs where c: "trim s = c # cs"
    by (cases "trim s") auto
  then have "\<not> is_space c"
    by (rule trim_no_leading_space)
  then have c': "c \<noteq> CHR '' ''"
    using is_space_blank by auto
  from ne obtain d ds where d: "rev (trim s) = d # ds"
    by (cases "rev (trim s)") auto
  then have "\<not> is_space d"
    by (rule trim_no_trailing_space)
  then have d': "d \<noteq> CHR '' ''"
    using is_space_blank by auto
  have "rev (untrim s) = CHR '' '' # d # ds @ '' ''"
    by (simp add: untrim_def d)
  then have e: "ends_with_one_space (untrim s)"
    using d' by (simp add: ends_with_one_space_def)
  have "untrim s = CHR '' '' # c # cs @ '' ''"
    by (simp add: untrim_def c)
  then have "begins_with_one_space (untrim s)"
    using c' by simp
  with e show ?thesis
    by simp
qed

text \<open>
  C10, as stated: for every string, \<open>trim (untrim s) = trim s\<close>, \<open>untrim\<close> is idempotent,
  and \<open>untrim s\<close> begins and ends with exactly one space. The last part fails for the
  empty message, and for every message of white space only: the result is two spaces.
\<close>

theorem untrim_empty_two_spaces:
  "untrim '''' = ''  '' \<and> \<not> begins_with_one_space (untrim '''')
    \<and> \<not> ends_with_one_space (untrim '''')"
  by (simp add: untrim_def trim_def ends_with_one_space_def)

text \<open>
  C10, amended: for every string, \<open>trim (untrim s) = trim s\<close> and \<open>untrim\<close> is idempotent;
  \<open>untrim s\<close> is the trimmed message with one space added at each end, so it begins and
  ends with exactly one space when the trimmed message is not empty, and it is two
  spaces when the trimmed message is empty.
\<close>

theorem untrim_trim:
  "trim (untrim s) = trim s \<and> untrim (untrim s) = untrim s
    \<and> untrim s = '' '' @ trim s @ '' ''
    \<and> (trim s \<noteq> [] \<longrightarrow> begins_with_one_space (untrim s) \<and> ends_with_one_space (untrim s))
    \<and> (trim s = [] \<longrightarrow> untrim s = ''  '')"
proof -
  have "trim (untrim s) = trim s"
    by (simp only: untrim_def trim_pad)
  moreover have "untrim (untrim s) = untrim s"
    by (simp only: untrim_def trim_pad)
  moreover have "trim s = [] \<longrightarrow> untrim s = ''  ''"
    by (simp add: untrim_def)
  moreover have "untrim s = '' '' @ trim s @ '' ''"
    by (simp only: untrim_def)
  ultimately show ?thesis
    using untrim_one_space [of s] by blast
qed

theorem untrim_trim_witness:
  "trim ''  a b  '' \<noteq> [] \<and> untrim ''  a b  '' = '' a b ''
    \<and> trim (untrim ''  a b  '') = ''a b''
    \<and> begins_with_one_space (untrim ''  a b  '') \<and> ends_with_one_space (untrim ''  a b  '')
    \<and> trim '' '' = [] \<and> untrim '' '' = ''  ''"
proof -
  have 1: "trim ''  a b  '' = ''a b''"
    by (simp add: trim_def is_space_def)
  have 2: "trim '' '' = []"
    by (simp add: trim_def is_space_def)
  have 3: "untrim ''  a b  '' = '' a b ''"
    by (simp add: untrim_def 1)
  show ?thesis
    using untrim_trim [of "''  a b  ''"] untrim_trim [of "'' ''"] by (simp add: 1 2 3)
qed

section \<open>JSON texts\<close>

text \<open>
  Each part of the recogniser that succeeds leaves less text than it was given, so the
  bound on the nesting that \<open>json_text\<close> starts with is never reached: a larger bound
  gives the same verdict.
\<close>

lemma length_skip_ws: "length (skip_ws cs) \<le> length cs"
  by (simp add: skip_ws_def length_dropWhile_le)

lemma json_chars_shrinks: "json_chars cs = Some r \<Longrightarrow> length r < length cs"
  by (induction cs arbitrary: r rule: json_chars.induct)
    (fastforce split: if_splits list.splits)+

lemma json_digits_shrinks: "json_digits cs = Some r \<Longrightarrow> length r \<le> length cs"
  by (auto simp: json_digits_def length_dropWhile_le split: if_splits)

lemma json_int_shrinks: "json_int cs = Some r \<Longrightarrow> length r < length cs"
  by (auto simp: json_int_def length_dropWhile_le less_Suc_eq_le split: list.splits if_splits)

lemma json_frac_shrinks: "json_frac cs = Some r \<Longrightarrow> length r \<le> length cs"
  by (auto simp: json_frac_def split: list.splits if_splits dest!: json_digits_shrinks)

lemma json_exp_shrinks: "json_exp cs = Some r \<Longrightarrow> length r \<le> length cs"
  by (auto simp: json_exp_def split: list.splits if_splits dest!: json_digits_shrinks)

lemma json_number_shrinks: "json_number cs = Some r \<Longrightarrow> length r < length cs"
proof -
  assume a: "json_number cs = Some r"
  let ?cs' = "case cs of [] \<Rightarrow> cs | c # r \<Rightarrow> if c = CHR ''-'' then r else cs"
  from a obtain r1 r2 where 1: "json_int ?cs' = Some r1" and 2: "json_frac r1 = Some r2"
    and 3: "json_exp r2 = Some r"
    by (auto simp: json_number_def Option.bind_eq_Some_conv)
  have "length ?cs' \<le> length cs"
    by (simp split: list.splits)
  with json_int_shrinks [OF 1] json_frac_shrinks [OF 2] json_exp_shrinks [OF 3]
  show ?thesis by linarith
qed

lemma json_literal_shrinks: "json_literal word cs = Some r \<Longrightarrow> word \<noteq> [] \<Longrightarrow> length r < length cs"
  by (auto simp: json_literal_def prefix_def split: if_splits)

lemma json_value_shrinks:
  "json_value f cs = Some r \<Longrightarrow> length r < length cs"
  "json_elements f cs = Some r \<Longrightarrow> length r < length cs"
  "json_members f cs = Some r \<Longrightarrow> length r < length cs"
proof (induction f cs and f cs and f cs arbitrary: r and r and r
    rule: json_value_json_elements_json_members.induct)
  case (1 cs)
  then show ?case by simp
next
  case (2 fuel cs)
  from "2.prems" obtain c rest where cs: "cs = c # rest"
    by (cases cs) auto
  show ?case
  proof (cases "c = CHR ''{''")
    case True
    with "2.prems" cs obtain d r' where s: "skip_ws rest = d # r'"
      by (cases "skip_ws rest") auto
    have l: "length (d # r') \<le> length rest"
      using length_skip_ws [of rest] s by simp
    show ?thesis
    proof (cases "d = CHR ''}''")
      case True
      with "2.prems" cs \<open>c = CHR ''{''\<close> s l show ?thesis by auto
    next
      case False
      with "2.prems" cs \<open>c = CHR ''{''\<close> s have "json_members fuel (d # r') = Some r"
        by simp
      from "2.IH"(1) [OF cs \<open>c = CHR ''{''\<close> s False this] l cs show ?thesis
        by simp
    qed
  next
    case nb: False
    show ?thesis
    proof (cases "c = CHR ''[''")
      case True
      with "2.prems" cs nb obtain d r' where s: "skip_ws rest = d # r'"
        by (cases "skip_ws rest") auto
      have l: "length (d # r') \<le> length rest"
        using length_skip_ws [of rest] s by simp
      show ?thesis
      proof (cases "d = CHR '']''")
        case True
        with "2.prems" cs nb \<open>c = CHR ''[''\<close> s l show ?thesis by auto
      next
        case False
        with "2.prems" cs nb \<open>c = CHR ''[''\<close> s have "json_elements fuel (d # r') = Some r"
          by simp
        from "2.IH"(2) [OF cs nb \<open>c = CHR ''[''\<close> s False this] l cs show ?thesis
          by simp
      qed
    next
      case False
      with "2.prems" cs nb show ?thesis
        by (auto split: if_splits dest!: json_chars_shrinks json_number_shrinks json_literal_shrinks)
    qed
  qed
next
  case (3 cs)
  then show ?case by simp
next
  case (4 fuel cs)
  from "4.prems" obtain r1 where v: "json_value fuel cs = Some r1"
    by (cases "json_value fuel cs") auto
  from "4.IH"(1) [OF v] have l1: "length r1 < length cs" .
  from "4.prems" v obtain d r' where s: "skip_ws r1 = d # r'"
    by (cases "skip_ws r1") auto
  have l2: "length r' < length r1"
    using length_skip_ws [of r1] s by simp
  show ?case
  proof (cases "d = CHR '',''")
    case True
    with "4.prems" v s have "json_elements fuel (skip_ws r') = Some r"
      by simp
    from "4.IH"(2) [OF v s True this] length_skip_ws [of r'] l1 l2 show ?thesis
      by simp
  next
    case False
    with "4.prems" v s l1 l2 show ?thesis
      by (auto split: if_splits)
  qed
next
  case (5 cs)
  then show ?case by simp
next
  case (6 fuel cs)
  from "6.prems" obtain q rest where cs: "cs = q # rest"
    by (cases cs) auto
  from "6.prems" cs have q: "\<not> q \<noteq> CHR 0x22"
    by (auto split: if_splits)
  from "6.prems" cs q obtain r1 where c: "json_chars rest = Some r1"
    by (cases "json_chars rest") auto
  from "6.prems" cs q c obtain colon r2 where s1: "skip_ws r1 = colon # r2"
    by (cases "skip_ws r1") auto
  from "6.prems" cs q c s1 have co: "\<not> colon \<noteq> CHR '':''"
    by (auto split: if_splits)
  from "6.prems" cs q c s1 co obtain r3 where v: "json_value fuel (skip_ws r2) = Some r3"
    by (cases "json_value fuel (skip_ws r2)") auto
  from "6.prems" cs q c s1 co v obtain d r4 where s3: "skip_ws r3 = d # r4"
    by (cases "skip_ws r3") auto
  have l: "length r4 < length cs"
    using json_chars_shrinks [OF c] length_skip_ws [of r1] s1 length_skip_ws [of r2]
      "6.IH"(1) [OF cs q c s1 co v] length_skip_ws [of r3] s3 cs
    by simp
  show ?case
  proof (cases "d = CHR '',''")
    case True
    with "6.prems" cs q c s1 co v s3 have "json_members fuel (skip_ws r4) = Some r"
      by simp
    from "6.IH"(2) [OF cs q c s1 co v s3 True this] length_skip_ws [of r4] l show ?thesis
      by simp
  next
    case False
    with "6.prems" cs q c s1 co v s3 l show ?thesis
      by (auto split: if_splits)
  qed
qed


lemma json_value_fuel_step:
  "2 * length cs \<le> f \<Longrightarrow> json_value (Suc f) cs = json_value f cs"
  "2 * length cs + 1 \<le> f \<Longrightarrow> json_elements (Suc f) cs = json_elements f cs"
  "2 * length cs + 1 \<le> f \<Longrightarrow> json_members (Suc f) cs = json_members f cs"
proof (induction f cs and f cs and f cs rule: json_value_json_elements_json_members.induct)
  case (1 cs)
  then show ?case by simp
next
  case (2 fuel cs)
  show ?case
  proof (cases cs)
    case Nil
    then show ?thesis by simp
  next
    case (Cons c rest)
    note cs = this
    have m: "json_members (Suc fuel) (d # r') = json_members fuel (d # r')"
      if "c = CHR ''{''" and "skip_ws rest = d # r'" and "d \<noteq> CHR ''}''" for d r'
    proof (rule "2.IH"(1) [OF cs that])
      show "2 * length (d # r') + 1 \<le> fuel"
        using length_skip_ws [of rest] that(2) "2.prems" cs by simp
    qed
    have e: "json_elements (Suc fuel) (d # r') = json_elements fuel (d # r')"
      if "c \<noteq> CHR ''{''" and "c = CHR ''[''" and "skip_ws rest = d # r'" and "d \<noteq> CHR '']''"
      for d r'
    proof (rule "2.IH"(2) [OF cs that])
      show "2 * length (d # r') + 1 \<le> fuel"
        using length_skip_ws [of rest] that(3) "2.prems" cs by simp
    qed
    show ?thesis
      unfolding json_value.simps(2) [of "Suc fuel" cs] json_value.simps(2) [of fuel cs]
      unfolding cs
      using m e
      by (simp split: list.splits del: json_members.simps json_elements.simps)
  qed
next
  case (3 cs)
  then show ?case by simp
next
  case (4 fuel cs)
  have v: "json_value (Suc fuel) cs = json_value fuel cs"
    using "4.prems" by (intro "4.IH"(1)) simp
  have e: "json_elements (Suc fuel) (skip_ws r') = json_elements fuel (skip_ws r')"
    if "json_value fuel cs = Some r1" and "skip_ws r1 = d # r'" and "d = CHR '',''" for r1 d r'
  proof (rule "4.IH"(2) [OF that])
    show "2 * length (skip_ws r') + 1 \<le> fuel"
      using json_value_shrinks(1) [OF that(1)] length_skip_ws [of r1] length_skip_ws [of r']
        that(2) "4.prems" by simp
  qed
  show ?case
    unfolding json_elements.simps(2) [of "Suc fuel" cs] json_elements.simps(2) [of fuel cs] v
    using e
    by (simp split: option.splits list.splits del: json_elements.simps json_value.simps)
next
  case (5 cs)
  then show ?case by simp
next
  case (6 fuel cs)
  show ?case
  proof (cases cs)
    case Nil
    then show ?thesis by simp
  next
    case (Cons q rest)
    note cs = this
    have v: "json_value (Suc fuel) (skip_ws r2) = json_value fuel (skip_ws r2)"
      if "\<not> q \<noteq> CHR 0x22" and "json_chars rest = Some r1" and "skip_ws r1 = colon # r2"
        and "\<not> colon \<noteq> CHR '':''" for r1 colon r2
    proof (rule "6.IH"(1) [OF cs that])
      show "2 * length (skip_ws r2) \<le> fuel"
        using json_chars_shrinks [OF that(2)] length_skip_ws [of r1] length_skip_ws [of r2]
          that(3) "6.prems" cs by simp
    qed
    have m: "json_members (Suc fuel) (skip_ws r4) = json_members fuel (skip_ws r4)"
      if "\<not> q \<noteq> CHR 0x22" and "json_chars rest = Some r1" and "skip_ws r1 = colon # r2"
        and "\<not> colon \<noteq> CHR '':''" and "json_value fuel (skip_ws r2) = Some r3"
        and "skip_ws r3 = d # r4" and "d = CHR '',''" for r1 colon r2 r3 d r4
    proof (rule "6.IH"(2) [OF cs that])
      show "2 * length (skip_ws r4) + 1 \<le> fuel"
        using json_chars_shrinks [OF that(2)] length_skip_ws [of r1] length_skip_ws [of r2]
          json_value_shrinks(1) [OF that(5)] length_skip_ws [of r3] length_skip_ws [of r4]
          that(3) that(6) "6.prems" cs by simp
    qed
    show ?thesis
      unfolding json_members.simps(2) [of "Suc fuel" cs] json_members.simps(2) [of fuel cs]
      unfolding cs
      using v m
      by (simp split: option.splits list.splits del: json_members.simps json_value.simps)
  qed
qed

lemma json_value_fuel: "2 * length cs \<le> f \<Longrightarrow> json_value (f + k) cs = json_value f cs"
  by (induction k) (simp_all add: json_value_fuel_step(1) del: json_value.simps)

text \<open>The verdict of \<open>json_text\<close> is the one that any larger bound gives.\<close>

lemma json_text_fuel:
  assumes "2 * length s + 2 \<le> f"
  shows "json_text s = (case json_value f (skip_ws s) of None \<Rightarrow> False | Some r \<Rightarrow> skip_ws r = [])"
proof -
  have b: "2 * length (skip_ws s) \<le> 2 * length s + 2"
    using length_skip_ws [of s] by simp
  from assms obtain k where f: "f = (2 * length s + 2) + k"
    using le_Suc_ex by blast
  show ?thesis
    unfolding json_text_def f json_value_fuel [OF b] ..
qed

section \<open>The call with a timeout\<close>

lemma fetch_rejects_early:
  "\<not> is_string method \<or> \<not> is_json body \<Longrightarrow>
   fetch net address method body w =
     (Rejected (Error (if \<not> is_string method then ''Invalid parameter: expected string''
        else ''Invalid parameter: expected object'')), w)"
  by (auto simp: fetch_def)

text \<open>
  Past the two checks, the call arms a timeout, appends its handle to \<open>this.timers\<close>,
  sends the request, and ends in one of four ways.
\<close>

lemma fetch_started:
  assumes "is_string method" and "is_json body"
  shows "fetch net address method body w =
     (let w3 = w\<lparr>timeouts := timeouts w @ [Armed],
                 timers := timers w @ [length (timeouts w)],
                 requests := requests w @ [(address, method, body)]\<rparr>
      in case await_fetch (config_timeout w) (net address method body) of
           Aborted \<Rightarrow> (Rejected AbortError, w3\<lparr>timeouts := timeouts w @ [Fired]\<rparr>)
         | Failed error \<Rightarrow> (Rejected error, w3)
         | Fulfilled response \<Rightarrow>
             (case response_json response of
                Inl error \<Rightarrow> (Rejected error, w3\<lparr>timeouts := timeouts w @ [Cleared]\<rparr>)
              | Inr data \<Rightarrow> (Resolved data, w3\<lparr>timeouts := timeouts w @ [Cleared]\<rparr>)))"
  using assms
  by (simp add: fetch_def setTimeout_def clearTimeout_def expire_def Let_def nth_append
      split: settled.splits sum.splits)

lemma await_slow: "delay < transport_time t \<Longrightarrow> await_fetch delay t = Aborted"
  by (cases t) auto

lemma not_json_broken: "\<not> is_json (JStr ''{invalid json'')"
  by code_simp

lemma not_json_undefined: "\<not> is_json JUndefined"
  by code_simp

lemma json_null: "is_json JNull"
  by code_simp

lemma json_empty_object: "is_json (JStr ''{}'')"
  by code_simp

lemma new_world_fields:
  "config_timeout new_world = 30000" "timers new_world = []" "timeouts new_world = []"
  "requests new_world = []"
  by (simp_all add: new_world_def service_def)

text \<open>
  C1, as stated: a call whose transport takes longer than the timeout resolves to the
  outcome \<open>Aborted("timeout")\<close>, a tagged outcome and not a thrown error. Here the
  transport answers after 45 seconds and the timeout is 30 seconds: the promise is
  rejected, with the abort error of the transport.
\<close>

theorem fetch_timeout_rejects:
  "config_timeout new_world < transport_time
      (slow_network (JStr ''http://localhost/'') (JStr ''POST'') (JStr ''{}''))
   \<and> fst (fetch slow_network (JStr ''http://localhost/'') (JStr ''POST'') (JStr ''{}'') new_world)
      = Rejected AbortError"
  by (simp add: fetch_started json_empty_object new_world_fields slow_network_def Let_def)

text \<open>
  C1, amended: for every call that passes the checks on its arguments and whose
  transport takes longer than the configured timeout, the promise is rejected with the
  abort error of the transport, thrown on as it is; afterwards the handle of the call
  is the last one in \<open>this.timers\<close>, and its timeout has fired, so it is not armed.
\<close>

theorem fetch_timeout:
  assumes "is_string method" and "is_json body"
    and "config_timeout w < transport_time (net address method body)"
  shows "fetch net address method body w =
      (Rejected AbortError,
       w\<lparr>timeouts := timeouts w @ [Fired], timers := timers w @ [length (timeouts w)],
         requests := requests w @ [(address, method, body)]\<rparr>)
    \<and> last (timers (snd (fetch net address method body w))) = length (timeouts w)
    \<and> timeouts (snd (fetch net address method body w)) ! length (timeouts w) = Fired
    \<and> \<not> armed (snd (fetch net address method body w)) (length (timeouts w))"
  using assms by (simp add: fetch_started await_slow Let_def armed_def)

theorem fetch_timeout_witness:
  "is_string (JStr ''POST'') \<and> is_json (JStr ''{}'')
   \<and> config_timeout new_world < transport_time
        (slow_network (JStr ''http://localhost/'') (JStr ''POST'') (JStr ''{}''))
   \<and> snd (fetch slow_network (JStr ''http://localhost/'') (JStr ''POST'') (JStr ''{}'') new_world)
      = new_world\<lparr>timeouts := [Fired], timers := [0],
          requests := [(JStr ''http://localhost/'', JStr ''POST'', JStr ''{}'')]\<rparr>
   \<and> \<not> armed (snd (fetch slow_network (JStr ''http://localhost/'') (JStr ''POST'') (JStr ''{}'')
          new_world)) 0"
proof -
  have 1: "is_string (JStr ''POST'')"
    by simp
  have 2: "config_timeout new_world < transport_time
      (slow_network (JStr ''http://localhost/'') (JStr ''POST'') (JStr ''{}''))"
    by (simp add: new_world_fields slow_network_def)
  show ?thesis
    using fetch_timeout [of "JStr ''POST''" "JStr ''{}''" new_world slow_network
        "JStr ''http://localhost/''", OF 1 json_empty_object 2] 1 json_empty_object 2
    by (simp add: new_world_fields(2-4) armed_def)
qed

text \<open>
  C2, as stated: on every path past the checks the timer of the call is cleared before
  the call returns, and \<open>this.timers\<close> is as long afterwards as it was before. Here the
  transport answers in time with data: the call resolves, and \<open>this.timers\<close>, empty
  before, holds one handle.
\<close>

theorem fetch_success_keeps_handle:
  "fst (fetch quick_network (JStr ''http://localhost/'') (JStr ''POST'') (JStr ''{}'') new_world)
      = Resolved (JObject [(''ok'', JBool True)])
   \<and> length (timers new_world) = 0
   \<and> length (timers (snd (fetch quick_network (JStr ''http://localhost/'') (JStr ''POST'')
        (JStr ''{}'') new_world))) = 1
   \<and> length (timers (snd (fetch quick_network (JStr ''http://localhost/'') (JStr ''POST'')
        (JStr ''{}'') new_world))) \<noteq> length (timers new_world)"
  by (simp add: fetch_started json_empty_object new_world_fields quick_network_def Let_def)

text \<open>
  C2, amended: for every call that passes the checks on its arguments, \<open>this.timers\<close>
  afterwards is what it was before with the handle of the call appended (one longer:
  no handle is ever removed), and the timeouts of the other handles are as they were.
  When the transport answers in time, whether the body then parses (success) or not
  (parse failure), the timeout of the call has been cleared when the call returns; when
  the timeout comes first, it has fired; in both cases it is not armed.
\<close>

theorem fetch_registry:
  assumes "is_string method" and "is_json body"
  shows "timers (snd (fetch net address method body w)) = timers w @ [length (timeouts w)]
    \<and> length (timers (snd (fetch net address method body w))) = length (timers w) + 1
    \<and> take (length (timeouts w)) (timeouts (snd (fetch net address method body w))) = timeouts w
    \<and> (\<forall>r. await_fetch (config_timeout w) (net address method body) = Fulfilled r \<longrightarrow>
          timeouts (snd (fetch net address method body w)) = timeouts w @ [Cleared]
          \<and> \<not> armed (snd (fetch net address method body w)) (length (timeouts w)))
    \<and> (await_fetch (config_timeout w) (net address method body) = Aborted \<longrightarrow>
          timeouts (snd (fetch net address method body w)) = timeouts w @ [Fired]
          \<and> \<not> armed (snd (fetch net address method body w)) (length (timeouts w)))"
  using assms
  by (simp add: fetch_started Let_def armed_def split: settled.splits sum.splits)

theorem fetch_registry_witness:
  "is_string (JStr ''POST'') \<and> is_json (JStr ''{}'')
   \<and> await_fetch (config_timeout new_world)
        (garbled_network (JStr ''http://localhost/'') (JStr ''POST'') (JStr ''{}''))
      = Fulfilled (Response (Inl (JError ''FetchError'' ''invalid json response body''
          [(''type'', JStr ''invalid-json'')])))
   \<and> timers (snd (fetch garbled_network (JStr ''http://localhost/'') (JStr ''POST'') (JStr ''{}'')
        new_world)) = [0]
   \<and> timeouts (snd (fetch garbled_network (JStr ''http://localhost/'') (JStr ''POST'')
        (JStr ''{}'') new_world)) = [Cleared]
   \<and> await_fetch (config_timeout new_world)
        (slow_network (JStr ''http://localhost/'') (JStr ''POST'') (JStr ''{}'')) = Aborted
   \<and> timeouts (snd (fetch slow_network (JStr ''http://localhost/'') (JStr ''POST'')
        (JStr ''{}'') new_world)) = [Fired]"
proof -
  have 1: "is_string (JStr ''POST'')"
    by simp
  have 2: "await_fetch (config_timeout new_world)
        (garbled_network (JStr ''http://localhost/'') (JStr ''POST'') (JStr ''{}''))
      = Fulfilled (Response (Inl (JError ''FetchError'' ''invalid json response body''
          [(''type'', JStr ''invalid-json'')])))"
    by (simp add: new_world_fields garbled_network_def)
  have 3: "await_fetch (config_timeout new_world)
        (slow_network (JStr ''http://localhost/'') (JStr ''POST'') (JStr ''{}'')) = Aborted"
    by (simp add: new_world_fields slow_network_def)
  show ?thesis
    using fetch_registry [OF 1 json_empty_object, of garbled_network "JStr ''http://localhost/''"
        new_world]
      fetch_registry [OF 1 json_empty_object, of slow_network "JStr ''http://localhost/''"
        new_world]
    by (simp add: 1 2 3 json_empty_object new_world_fields(2-4))
qed

text \<open>
  When the transport fails before the timeout, the error goes through the \<open>catch\<close>
  block, which throws it on; \<open>clearTimeout\<close> is not reached on this path, and the
  timeout of the call is still armed when the call returns.
\<close>

lemma fetch_failure_leaves_timeout_armed:
  "fetch dead_network (JStr ''http://localhost/'') (JStr ''POST'') (JStr ''{}'') new_world =
     (Rejected (JError ''FetchError'' ''connect ECONNREFUSED''
        [(''type'', JStr ''system''), (''code'', JStr ''ECONNREFUSED'')]),
      new_world\<lparr>timeouts := [Armed], timers := [0],
        requests := [(JStr ''http://localhost/'', JStr ''POST'', JStr ''{}'')]\<rparr>)"
  by (simp add: fetch_started json_empty_object new_world_fields dead_network_def Let_def)

text \<open>
  C5: when the method is not a string, or the body is not a JSON text, the call is
  rejected at once with the error \<open>Invalid parameter\<close>; the world is as it was: no
  timeout has been armed, \<open>this.timers\<close> has not grown, no request has been sent.
\<close>

theorem fetch_invalid_argument:
  assumes "\<not> is_string method \<or> \<not> is_json body"
  shows "fetch net address method body w =
      (Rejected (Error (if \<not> is_string method then ''Invalid parameter: expected string''
         else ''Invalid parameter: expected object'')), w)
    \<and> timers (snd (fetch net address method body w)) = timers w
    \<and> timeouts (snd (fetch net address method body w)) = timeouts w
    \<and> requests (snd (fetch net address method body w)) = requests w"
  using assms by (simp add: fetch_rejects_early)

theorem fetch_invalid_argument_witness:
  "\<not> is_json (JStr ''{invalid json'')
   \<and> fetch quick_network (JStr ''http://localhost/'') (JStr ''POST'') (JStr ''{invalid json'')
        new_world = (Rejected (Error ''Invalid parameter: expected object''), new_world)
   \<and> \<not> is_string (JNum 7)
   \<and> fetch quick_network (JStr ''http://localhost/'') (JNum 7) (JStr ''{}'') new_world
      = (Rejected (Error ''Invalid parameter: expected string''), new_world)"
  using fetch_invalid_argument [OF disjI2 [OF not_json_broken], of quick_network
      "JStr ''http://localhost/''" "JStr ''POST''" new_world]
    fetch_invalid_argument [of "JNum 7" "JStr ''{}''" quick_network
      "JStr ''http://localhost/''" new_world]
    not_json_broken
  by simp

text \<open>
  C6, as stated: with a string as method and no body, the checks pass and the call is
  not rejected for its arguments. Here the body is \<open>undefined\<close>, which \<open>JSON.parse\<close>
  reads as the text \<open>undefined\<close> and refuses: the call is rejected.
\<close>

theorem fetch_without_body_rejected:
  "is_string (JStr ''GET'')
   \<and> fetch quick_network (JStr ''http://localhost/'') (JStr ''GET'') JUndefined new_world
      = (Rejected (Error ''Invalid parameter: expected object''), new_world)"
  using not_json_undefined by (simp add: fetch_rejects_early)

text \<open>
  C6, amended: for every call with a string as method and the body absent
  (\<open>undefined\<close>), the check of the body fails, as it is made whether a body is given or
  not: the call is rejected with the error \<open>Invalid parameter: expected object\<close>, and
  nothing has been armed or sent. With the body \<open>null\<close> the checks pass and the request
  is sent.
\<close>

theorem fetch_without_body:
  assumes "is_string method"
  shows "fetch net address method JUndefined w
      = (Rejected (Error ''Invalid parameter: expected object''), w)
    \<and> requests (snd (fetch net address method JNull w)) = requests w @ [(address, method, JNull)]"
proof -
  have "fetch net address method JUndefined w
      = (Rejected (Error ''Invalid parameter: expected object''), w)"
    using assms not_json_undefined by (simp add: fetch_rejects_early)
  moreover have "requests (snd (fetch net address method JNull w))
      = requests w @ [(address, method, JNull)]"
    using assms json_null
    by (simp add: fetch_started Let_def split: settled.splits sum.splits)
  ultimately show ?thesis
    by simp
qed

theorem fetch_without_body_witness:
  "is_string (JStringObj ''GET'')
   \<and> fst (fetch quick_network (JStr ''http://localhost/'') (JStringObj ''GET'') JUndefined
        new_world) = Rejected (Error ''Invalid parameter: expected object'')
   \<and> requests (snd (fetch quick_network (JStr ''http://localhost/'') (JStringObj ''GET'') JNull
        new_world)) = [(JStr ''http://localhost/'', JStringObj ''GET'', JNull)]"
proof -
  have 1: "is_string (JStringObj ''GET'')"
    by simp
  show ?thesis
    using fetch_without_body [OF 1, of quick_network "JStr ''http://localhost/''" new_world]
    by (simp add: new_world_fields)
qed

section \<open>The stopwatch\<close>









section \<open>The identifier\<close>

lemma of_char_digit_char: "d < 10 \<Longrightarrow> of_char (digit_char d) = 48 + d"
  by (simp add: digit_char_def)

lemma digit_char_plain: "d < 10 \<Longrightarrow> digit_char d \<noteq> CHR '','' \<and> digit_char d \<noteq> CHR ''-''"
proof -
  assume d: "d < 10"
  have "(of_char CHR '','' :: nat) = 44" and "(of_char CHR ''-'' :: nat) = 45"
    by simp_all
  moreover have "(of_char (digit_char d) :: nat) \<ge> 48"
    using of_char_digit_char [OF d] by simp
  ultimately show ?thesis
    by auto
qed

lemma digits_value_digits: "digits_value (digits n) = n"
proof (induction n rule: digits.induct)
  case (1 n)
  show ?case
  proof (cases "n < 10")
    case True
    then show ?thesis
      by (simp add: digits.simps [of n] digits_value_def of_char_digit_char)
  next
    case False
    have "digits_value (digits n)
        = 10 * digits_value (digits (n div 10)) + (of_char (digit_char (n mod 10)) - 48)"
      using False by (simp add: digits.simps [of n] digits_value_def)
    also have "\<dots> = 10 * (n div 10) + n mod 10"
      using 1 [OF False] by (simp add: of_char_digit_char)
    finally show ?thesis
      by simp
  qed
qed

lemma digits_inj: "digits m = digits n \<Longrightarrow> m = n"
  by (metis digits_value_digits)

lemma digits_plain: "c \<in> set (digits n) \<Longrightarrow> c \<noteq> CHR '','' \<and> c \<noteq> CHR ''-''"
proof (induction n rule: digits.induct)
  case (1 n)
  show ?case
  proof (cases "n < 10")
    case True
    with 1(2) show ?thesis
      by (simp add: digits.simps [of n] digit_char_plain)
  next
    case False
    with 1(2) have "c \<in> set (digits (n div 10)) \<or> c = digit_char (n mod 10)"
      by (auto simp add: digits.simps [of n])
    then show ?thesis
      using 1(1) [OF False] digit_char_plain [of "n mod 10"] by auto
  qed
qed

lemma digits_not_empty: "digits n \<noteq> []"
  by (simp add: digits.simps [of n])

lemma number_to_string_inj: "number_to_string m = number_to_string n \<Longrightarrow> m = n"
proof -
  assume e: "number_to_string m = number_to_string n"
  have h: "\<And>k. hd (digits k) \<noteq> CHR ''-''"
    using digits_plain digits_not_empty by (metis hd_in_set)
  have x: "\<And>j k. CHR ''-'' # digits j \<noteq> digits k"
    using h by (metis list.sel(1))
  show ?thesis
  proof (cases "m < 0")
    case True
    note m = this
    show ?thesis
    proof (cases "n < 0")
      case True
      with m e have "nat (- m) = nat (- n)"
        by (simp add: number_to_string_def digits_inj)
      with m True show ?thesis by simp
    next
      case False
      with m e x show ?thesis
        by (simp add: number_to_string_def)
    qed
  next
    case False
    note m = this
    show ?thesis
    proof (cases "n < 0")
      case True
      with m e x [of "nat (- n)" "nat m"] show ?thesis
        by (simp add: number_to_string_def)
    next
      case False
      with m e have "nat m = nat n"
        by (simp add: number_to_string_def digits_inj)
      with m False show ?thesis by simp
    qed
  qed
qed

lemma number_to_string_no_comma: "CHR '','' \<notin> set (number_to_string n)"
  using digits_plain by (auto simp: number_to_string_def)

lemma takeWhile_upto: "x \<notin> set a \<Longrightarrow> takeWhile (\<lambda>c. c \<noteq> x) (a @ x # b) = a"
  by (induction a) auto

lemma split_at_comma:
  assumes "CHR '','' \<notin> set a" and "CHR '','' \<notin> set a'"
    and "a @ CHR '','' # b = a' @ CHR '','' # b'"
  shows "a = a' \<and> b = b'"
proof -
  have "takeWhile (\<lambda>c. c \<noteq> CHR '','') (a @ CHR '','' # b) = a"
    using assms(1) by (rule takeWhile_upto)
  moreover have "takeWhile (\<lambda>c. c \<noteq> CHR '','') (a' @ CHR '','' # b') = a'"
    using assms(2) by (rule takeWhile_upto)
  ultimately have "a = a'"
    using assms(3) by simp
  with assms(3) show ?thesis by simp
qed

lemma hrtime_text: "stringify_text (hrtime_value t) =
    ''['' @ number_to_string (fst t) @ '','' @ number_to_string (snd t) @ '']''"
  by (simp add: stringify_text_def hrtime_value_def)

text \<open>Two clock readings with the same JSON text are the same reading.\<close>

lemma hrtime_text_inj:
  assumes "stringify_text (hrtime_value s) = stringify_text (hrtime_value t)"
  shows "s = t"
proof -
  from assms have "number_to_string (fst s) @ CHR '','' # (number_to_string (snd s) @ '']'')
      = number_to_string (fst t) @ CHR '','' # (number_to_string (snd t) @ '']'')"
    by (simp add: hrtime_text)
  then have "number_to_string (fst s) = number_to_string (fst t)
      \<and> number_to_string (snd s) @ '']'' = number_to_string (snd t) @ '']''"
    by (rule split_at_comma [OF number_to_string_no_comma number_to_string_no_comma])
  then have "fst s = fst t" and "snd s = snd t"
    by (simp_all add: number_to_string_inj)
  then show ?thesis
    by (simp add: prod_eq_iff)
qed

text \<open>
  \<open>UUID\<close> hands the identifier of the package on as it is: when the package gives the
  namespace and then an identifier for the text of the reading, that identifier is the
  result. Whether two readings get two identifiers is then up to the package alone.
\<close>

lemma UUID_passes_identifier:
  assumes "uuid ''nl.mediaserve.common'' uuid_DNS = Some namespace"
    and "uuid (stringify_text (hrtime_value now)) namespace = Some ident"
  shows "UUID uuid now = JStr ident"
  using assms by (simp add: UUID_def)

section \<open>The exit\<close>











section \<open>The database\<close>

text \<open>
  C7: when the connection answers a query with rows, \<open>execute\<close> resolves to the array of
  these rows, each one as the connection gave it and in the same order; a connection
  that answers with the single row \<open>{1: 1}\<close> gives the array of this one row.
\<close>

theorem execute_rows:
  "connection query timeout = Inr (JArray rows) \<Longrightarrow>
   execute timeout connection query = Resolved (JArray rows)"
  by (simp add: execute_def)

theorem execute_rows_witness:
  "one_row (JStr ''SELECT 1'') 120000 = Inr (JArray [JObject [(''1'', JNum 1)]])
   \<and> execute 120000 one_row (JStr ''SELECT 1'') = Resolved (JArray [JObject [(''1'', JNum 1)]])"
  using execute_rows [of one_row "JStr ''SELECT 1''" 120000 "[JObject [(''1'', JNum 1)]]"]
  by (simp add: one_row_def)

text \<open>
  C4: when the connection fails, \<open>execute\<close> is rejected with an error whose message
  holds the statement and the message of the cause. The code writes the cause with
  \<open>JSON.stringify\<close>, which writes the enumerable properties of an error and not its
  message. Here the connection rejects the statement \<open>SELECT * FROM missing\<close> with the
  error \<open>table not found\<close>: the message of the rejection holds the statement, and \<open>{}\<close>
  for the cause; the words \<open>table not found\<close> are not in it.
\<close>

theorem execute_drops_cause_message:
  "execute 120000 missing_table (JStr ''SELECT * FROM missing'') =
     Rejected (Error (''Unable to execute database query: {'' @ quote ''sql'' @ '':''
       @ quote ''SELECT * FROM missing'' @ '','' @ quote ''error'' @ '':{}}''))
   \<and> string_includes
        (rejection_message (execute 120000 missing_table (JStr ''SELECT * FROM missing'')))
        ''SELECT * FROM missing''
   \<and> \<not> string_includes
        (rejection_message (execute 120000 missing_table (JStr ''SELECT * FROM missing'')))
        ''table not found''"
  by (simp add: execute_def missing_table_def stringify_text_def quote_def quote_char_def)

end
